theory Spec2Isabelle
  imports Complex_Main
begin

section \<open>Python values and exceptions\<close>

text \<open>
  The configuration code of \<^verbatim>\<open>di_automata/config_setup.py\<close> works on Python integers
  (unbounded, modelled as \<open>int\<close>), on optional values (\<^verbatim>\<open>None\<close> is \<open>None\<close>) and on
  nested mappings.  Every exception the modelled code can raise is a value of \<open>error\<close>.

  \<open>FloatResult\<close> is not a Python exception.  Where the source leaves the integers
  (\<^verbatim>\<open>b ** e\<close> with a negative exponent is a float) the model stops with this marker
  instead of following the floating-point computation.
\<close>

datatype error =
    KeyError
  | TypeError
  | IndexError
  | ZeroDivisionError
  | ValueError string
  | AssertionError string
  | ValidationError
  | IncompatibleCallbackSet
  | FloatResult

text \<open>Sequencing of steps that may raise: the first exception ends the run.\<close>

definition and_then :: "error + 'a \<Rightarrow> ('a \<Rightarrow> error + 'b) \<Rightarrow> error + 'b" where
  "and_then r f = (case r of Inl e \<Rightarrow> Inl e | Inr x \<Rightarrow> f x)"

text \<open>A key of a raw mapping is either absent or given with a value.\<close>

datatype 'a entry = Absent | Given 'a

text \<open>A pydantic field with a default: an absent key takes the default.\<close>

definition field_default :: "'a \<Rightarrow> 'a entry \<Rightarrow> 'a" where
  "field_default d e = (case e of Absent \<Rightarrow> d | Given x \<Rightarrow> x)"

text \<open>\<^verbatim>\<open>b ** e\<close> on Python integers.\<close>

definition py_pow :: "int \<Rightarrow> int \<Rightarrow> error + int" where
  "py_pow b e =
     (if 0 \<le> e then Inr (b ^ nat e)
      else if b = 0 then Inl ZeroDivisionError
      else Inl FloatResult)"

text \<open>\<^verbatim>\<open>math.factorial(n)\<close>: a \<^verbatim>\<open>ValueError\<close> below zero.\<close>

definition py_factorial :: "int \<Rightarrow> error + int" where
  "py_factorial n =
     (if n < 0 then Inl (ValueError ''factorial() not defined for negative values'')
      else Inr (fact (nat n)))"

text \<open>
  \<^verbatim>\<open>math.ceil(a / b)\<close> on Python integers.  The quotient is taken exactly; Python rounds
  it to a double first, which gives the same ceiling while both operands are below
  \<open>2 ^ 53\<close> in magnitude.
\<close>

definition py_ceil_div :: "int \<Rightarrow> int \<Rightarrow> error + int" where
  "py_ceil_div a b =
     (if b = 0 then Inl ZeroDivisionError
      else Inr \<lceil>(of_int a :: rat) / of_int b\<rceil>)"

text \<open>\<^verbatim>\<open>not x\<close> for an optional integer: \<^verbatim>\<open>None\<close> and \<^verbatim>\<open>0\<close> are falsy.\<close>

definition py_not :: "int option \<Rightarrow> bool" where
  "py_not x = (case x of None \<Rightarrow> True | Some k \<Rightarrow> k = 0)"

section \<open>Task configurations\<close>

subsection \<open>Label types\<close>

datatype gridworld_label = GW_STATE | GW_PARITY | GW_BOUNDARY

datatype abab_label = AB_STATE | AB_BOUNDARY

datatype adder_label = AD_STATE | AD_DIGIT | AD_POSITION

datatype permutation_label = PM_STATE | PM_FIRST_CHAIR

datatype dihedral_label = DH_STATE | DH_TOGGLE | DH_POSITION

definition gridworld_label_of :: "string \<Rightarrow> gridworld_label option" where
  "gridworld_label_of s =
     (if s = ''state'' then Some GW_STATE
      else if s = ''parity'' then Some GW_PARITY
      else if s = ''boundary'' then Some GW_BOUNDARY
      else None)"

definition abab_label_of :: "string \<Rightarrow> abab_label option" where
  "abab_label_of s =
     (if s = ''state'' then Some AB_STATE
      else if s = ''boundary'' then Some AB_BOUNDARY
      else None)"

definition adder_label_of :: "string \<Rightarrow> adder_label option" where
  "adder_label_of s =
     (if s = ''state'' then Some AD_STATE
      else if s = ''digit'' then Some AD_DIGIT
      else if s = ''position'' then Some AD_POSITION
      else None)"

definition permutation_label_of :: "string \<Rightarrow> permutation_label option" where
  "permutation_label_of s =
     (if s = ''state'' then Some PM_STATE
      else if s = ''first_chair'' then Some PM_FIRST_CHAIR
      else None)"

definition dihedral_label_of :: "string \<Rightarrow> dihedral_label option" where
  "dihedral_label_of s =
     (if s = ''state'' then Some DH_STATE
      else if s = ''toggle'' then Some DH_TOGGLE
      else if s = ''position'' then Some DH_POSITION
      else None)"

subsection \<open>The variants\<close>

text \<open>
  One constructor per configuration class, with the fields its vocabulary properties
  read.  \<^verbatim>\<open>Optional[int]\<close> and \<^verbatim>\<open>Optional[Label]\<close> fields are options: an explicit
  \<^verbatim>\<open>None\<close> is a value the class accepts.  \<^verbatim>\<open>SymmetricAutomatonConfig\<close> and
  \<^verbatim>\<open>AlternatingAutomatonConfig\<close> inherit both properties from
  \<^verbatim>\<open>PermutationAutomatonConfig\<close>.
\<close>

datatype automaton =
    ParityAutomatonConfig
  | GridworldAutomatonConfig "int option" "gridworld_label option"
  | ABABAutomatonConfig "abab_label option"
  | AdderAutomatonConfig "int option" "adder_label option"
  | FlipFlopAutomatonConfig "int option"
  | SymmetricAutomatonConfig "int option" "permutation_label option"
  | AlternatingAutomatonConfig "int option" "permutation_label option"
  | CyclicAutomatonConfig "int option"
  | DihedralAutomatonConfig "int option" "dihedral_label option"
  | QuaternionAutomatonConfig
  | PermutationResetAutomatonConfig int "int list list" "rat list"

text \<open>
  The two properties return a Python value, an integer or \<^verbatim>\<open>None\<close> (a \<^verbatim>\<open>match\<close>
  with no matching case falls through, and an optional field may hold \<^verbatim>\<open>None\<close>), or
  raise.
\<close>

fun vocab_size :: "automaton \<Rightarrow> error + int option" where
  "vocab_size ParityAutomatonConfig = Inr (Some 2)"
| "vocab_size (GridworldAutomatonConfig n l) = Inr (Some 2)"
| "vocab_size (ABABAutomatonConfig l) = Inr (Some 2)"
| "vocab_size (AdderAutomatonConfig n_addends l) = Inr (Some 4)"
| "vocab_size (FlipFlopAutomatonConfig n) =
     (case n of None \<Rightarrow> Inl TypeError | Some k \<Rightarrow> Inr (Some (k + 1)))"
| "vocab_size (SymmetricAutomatonConfig n l) = Inr n"
| "vocab_size (AlternatingAutomatonConfig n l) = Inr n"
| "vocab_size (CyclicAutomatonConfig n) = Inr n"
| "vocab_size (DihedralAutomatonConfig n l) = Inr (Some 2)"
| "vocab_size QuaternionAutomatonConfig = Inr (Some 4)"
| "vocab_size (PermutationResetAutomatonConfig n generators perm_probs) =
     and_then (py_factorial n) (\<lambda>f. Inr (Some (f + int (length generators))))"

text \<open>\<^verbatim>\<open>PermutationAutomatonConfig.output_vocab_size\<close>.\<close>

definition permutation_output_vocab_size ::
    "int option \<Rightarrow> permutation_label option \<Rightarrow> error + int option" where
  "permutation_output_vocab_size n l =
     (case l of
        Some PM_STATE \<Rightarrow>
          (case n of None \<Rightarrow> Inl TypeError
           | Some k \<Rightarrow> and_then (py_factorial k) (\<lambda>f. Inr (Some f)))
      | Some PM_FIRST_CHAIR \<Rightarrow> Inr n
      | None \<Rightarrow> Inr None)"

fun output_vocab_size :: "automaton \<Rightarrow> error + int option" where
  "output_vocab_size ParityAutomatonConfig = Inr (Some 2)"
| "output_vocab_size (GridworldAutomatonConfig n l) =
     (case l of
        Some GW_STATE \<Rightarrow> Inr n
      | Some GW_PARITY \<Rightarrow> Inr (Some 2)
      | Some GW_BOUNDARY \<Rightarrow> Inr (Some 2)
      | None \<Rightarrow> Inr None)"
| "output_vocab_size (ABABAutomatonConfig l) =
     (case l of
        Some AB_STATE \<Rightarrow> Inr (Some 4)
      | Some AB_BOUNDARY \<Rightarrow> Inr (Some 2)
      | None \<Rightarrow> Inr None)"
| "output_vocab_size (AdderAutomatonConfig n_addends l) =
     (case l of
        Some AD_STATE \<Rightarrow>
          (case n_addends of None \<Rightarrow> Inl TypeError
           | Some k \<Rightarrow> and_then (py_pow 2 k) (\<lambda>p. Inr (Some (2 * (p - 1)))))
      | Some AD_DIGIT \<Rightarrow> Inr n_addends
      | Some AD_POSITION \<Rightarrow> Inr (Some 2)
      | None \<Rightarrow> Inr None)"
| "output_vocab_size (FlipFlopAutomatonConfig n) =
     (case n of None \<Rightarrow> Inl TypeError | Some k \<Rightarrow> Inr (Some (k + 1)))"
| "output_vocab_size (SymmetricAutomatonConfig n l) = permutation_output_vocab_size n l"
| "output_vocab_size (AlternatingAutomatonConfig n l) = permutation_output_vocab_size n l"
| "output_vocab_size (CyclicAutomatonConfig n) = Inr n"
| "output_vocab_size (DihedralAutomatonConfig n l) =
     (case l of
        Some DH_STATE \<Rightarrow>
          (case n of None \<Rightarrow> Inl TypeError | Some k \<Rightarrow> Inr (Some (k * 2)))
      | Some DH_TOGGLE \<Rightarrow> Inr (Some 2)
      | Some DH_POSITION \<Rightarrow> Inr n
      | None \<Rightarrow> Inr None)"
| "output_vocab_size QuaternionAutomatonConfig = Inr (Some 8)"
| "output_vocab_size (PermutationResetAutomatonConfig n generators perm_probs) =
     and_then (py_factorial n) (\<lambda>f. Inr (Some f))"

subsection \<open>The validators of the permutation-with-reset variant\<close>

text \<open>
  \<^verbatim>\<open>check_generators(cls, v, values)\<close>: \<open>n\<close> is \<^verbatim>\<open>values.get("n")\<close>, which is
  \<^verbatim>\<open>None\<close> when the field \<^verbatim>\<open>n\<close> did not validate.  \<^verbatim>\<open>v[0]\<close> raises on an empty list.
\<close>

definition check_generators :: "int list list \<Rightarrow> int option \<Rightarrow> error + int list list" where
  "check_generators v n =
     (case v of
        [] \<Rightarrow> Inl IndexError
      | g # _ \<Rightarrow>
          if Some (int (length g)) = n then Inr v
          else Inl (AssertionError ''Generators must be of length n.''))"

text \<open>
  \<^verbatim>\<open>set_perm_probs(cls, v, values)\<close>: the second argument is
  \<^verbatim>\<open>values.get("generators")\<close>, absent when the generators did not validate.  The
  probabilities are Python floats; the model keeps the exact quotient.
\<close>

definition set_perm_probs :: "rat list option \<Rightarrow> int list list option \<Rightarrow> rat list" where
  "set_perm_probs v values_generators =
     (case v of
        None \<Rightarrow>
          (let generators = (case values_generators of None \<Rightarrow> [] | Some g \<Rightarrow> g);
               n_generators = length generators;
               uniform_prob = (if n_generators > 0 then 1 / of_nat n_generators else 0)
           in map (\<lambda>_. uniform_prob) [0..<n_generators])
      | Some p \<Rightarrow> p)"

subsection \<open>The raw task mapping and the class registry\<close>

text \<open>
  The raw task mapping.  \<^verbatim>\<open>dataset_type\<close>, \<^verbatim>\<open>size\<close> and \<^verbatim>\<open>length\<close> are read
  by subscript in \<^verbatim>\<open>_set_fields\<close> and are taken to be present; the other keys may be
  absent, and then the class's default applies.
\<close>

record task_dict =
  dataset_type :: string
  size_cfg :: int
  length_cfg :: int
  n :: "int option entry"
  n_addends :: "int option entry"
  label_type :: "string option entry"
  generators :: "int list list entry"
  perm_probs :: "rat list option entry"

text \<open>The constructed instance: the base-class fields and the variant.\<close>

record DatasetConfig =
  inst_size :: int
  inst_length :: int
  variant :: automaton

datatype config_class =
    ABAB | ADDER | ALTERNATING | CYCLIC | DIHEDRAL | FLIPFLOP | GRIDWORLD | PARITY
  | QUATERNION | PERMUTATION_RESET | SYMMETRIC

definition config_class_map :: "string \<Rightarrow> config_class option" where
  "config_class_map = map_of
     [(''abab'', ABAB),
      (''adder'', ADDER),
      (''alternating'', ALTERNATING),
      (''cyclic'', CYCLIC),
      (''dihedral'', DIHEDRAL),
      (''flipflop'', FLIPFLOP),
      (''gridworld'', GRIDWORLD),
      (''parity'', PARITY),
      (''quaternion'', QUATERNION),
      (''permutation_reset'', PERMUTATION_RESET),
      (''symmetric'', SYMMETRIC)]"

text \<open>
  An optional label field: the default when the key is absent, \<^verbatim>\<open>None\<close> when given
  as \<^verbatim>\<open>None\<close>, and otherwise the enum member with that value (pydantic rejects any
  other string).
\<close>

definition label_field ::
    "(string \<Rightarrow> 'l option) \<Rightarrow> 'l \<Rightarrow> string option entry \<Rightarrow> error + 'l option" where
  "label_field parse d e =
     (case e of
        Absent \<Rightarrow> Inr (Some d)
      | Given None \<Rightarrow> Inr None
      | Given (Some s) \<Rightarrow>
          (case parse s of None \<Rightarrow> Inl ValidationError | Some l \<Rightarrow> Inr (Some l)))"

text \<open>
  Construction of \<^verbatim>\<open>PermutationResetAutomatonConfig\<close>: \<^verbatim>\<open>n\<close> is a plain
  \<^verbatim>\<open>int\<close> field with default 4 (\<^verbatim>\<open>None\<close> does not validate and leaves
  \<^verbatim>\<open>values\<close> without it); both validators run with \<^verbatim>\<open>always=True\<close>, so also on the
  defaults.
\<close>

definition default_generators :: "int list list" where
  "default_generators = [[1, 0, 2, 3, 4], [4, 0, 1, 2, 3]]"

definition permutation_reset :: "task_dict \<Rightarrow> error + automaton" where
  "permutation_reset d =
     (let values_n = field_default (Some 4) (n d) in
      and_then (check_generators (field_default default_generators (generators d)) values_n)
        (\<lambda>gens.
           case values_n of
             None \<Rightarrow> Inl ValidationError
           | Some k \<Rightarrow>
               Inr (PermutationResetAutomatonConfig k gens
                      (set_perm_probs (field_default None (perm_probs d)) (Some gens)))))"

text \<open>\<^verbatim>\<open>config_class(**task_config)\<close> for each class of the registry.\<close>

fun construct_variant :: "config_class \<Rightarrow> task_dict \<Rightarrow> error + automaton" where
  "construct_variant PARITY d = Inr ParityAutomatonConfig"
| "construct_variant GRIDWORLD d =
     and_then (label_field gridworld_label_of GW_STATE (label_type d))
       (\<lambda>l. Inr (GridworldAutomatonConfig (field_default (Some 9) (n d)) l))"
| "construct_variant ABAB d =
     and_then (label_field abab_label_of AB_STATE (label_type d))
       (\<lambda>l. Inr (ABABAutomatonConfig l))"
| "construct_variant ADDER d =
     and_then (label_field adder_label_of AD_STATE (label_type d))
       (\<lambda>l. Inr (AdderAutomatonConfig (field_default (Some 2) (n_addends d)) l))"
| "construct_variant FLIPFLOP d = Inr (FlipFlopAutomatonConfig (field_default (Some 2) (n d)))"
| "construct_variant SYMMETRIC d =
     and_then (label_field permutation_label_of PM_STATE (label_type d))
       (\<lambda>l. Inr (SymmetricAutomatonConfig (field_default (Some 5) (n d)) l))"
| "construct_variant ALTERNATING d =
     and_then (label_field permutation_label_of PM_STATE (label_type d))
       (\<lambda>l. Inr (AlternatingAutomatonConfig (field_default (Some 5) (n d)) l))"
| "construct_variant CYCLIC d = Inr (CyclicAutomatonConfig (field_default (Some 5) (n d)))"
| "construct_variant DIHEDRAL d =
     and_then (label_field dihedral_label_of DH_STATE (label_type d))
       (\<lambda>l. Inr (DihedralAutomatonConfig (field_default (Some 4) (n d)) l))"
| "construct_variant QUATERNION d = Inr QuaternionAutomatonConfig"
| "construct_variant PERMUTATION_RESET d = permutation_reset d"

definition construct :: "config_class \<Rightarrow> task_dict \<Rightarrow> error + DatasetConfig" where
  "construct c d =
     and_then (construct_variant c d)
       (\<lambda>a. Inr \<lparr>inst_size = size_cfg d, inst_length = length_cfg d, variant = a\<rparr>)"

section \<open>The raw experiment mapping\<close>

text \<open>
  \<^verbatim>\<open>_set_fields\<close> is a pre-validation root validator: it receives the raw nested mapping
  \<open>v\<close>, updates it in place and returns it.  The groups it subscripts
  (\<^verbatim>\<open>task_config\<close>, \<^verbatim>\<open>dataloader_config\<close>, \<^verbatim>\<open>nano_gpt_config\<close>,
  \<^verbatim>\<open>rlct_config\<close>, \<^verbatim>\<open>wandb_config\<close>) are taken to be present, with values of the
  declared field types; only the fields the validator reads or writes are kept.  The
  float hyperparameters of the sampler records are carried along untouched and are not
  part of the model.
\<close>

record dataloader_dict =
  train_bs :: int

record nano_gpt_dict =
  n_layers :: int
  block_size :: "int option"
  gpt_vocab_size :: "int option"
  gpt_output_vocab_size :: "int option"

record wandb_dict =
  log_to_wandb :: bool
  sweep :: bool
  sweep_num :: "int option"

datatype RLCTSamplerType = SGLD | SGLD_MA | SGNHT

record SGLD_Kwargs =
  sgld_num_samples :: "int option"

record SGNHT_Kwargs =
  sgnht_num_samples :: "int option"

record rlct_dict =
  sampling_method :: "RLCTSamplerType option"
  num_chains :: int
  num_draws :: int
  num_samples :: "int option"
  num_burnin_steps :: int
  num_steps_bw_draws :: int
  batch_size :: int
  online :: bool
  use_distill_loss :: bool
  use_diagnostics :: bool
  sgld_kwargs :: "SGLD_Kwargs option"
  sgnht_kwargs :: "SGNHT_Kwargs option"
  rlct_data_dir :: "string option"

record main_dict =
  task_config :: task_dict
  dataloader_config :: dataloader_dict
  nano_gpt_config :: nano_gpt_dict
  rlct_config :: rlct_dict
  wandb_config :: wandb_dict
  num_training_iter :: int
  is_wandb_enabled :: "bool option"
  num_epochs :: "int option"
  eval_frequency :: "int option entry"

section \<open>The derivation: \<^verbatim>\<open>MainConfig._set_fields\<close>\<close>

text \<open>Lines 507 to 509: the class is looked up by the raw tag and instantiated.\<close>

definition resolve_task :: "task_dict \<Rightarrow> error + DatasetConfig" where
  "resolve_task d =
     (case config_class_map (dataset_type d) of
        None \<Rightarrow> Inl KeyError
      | Some c \<Rightarrow> construct c d)"

text \<open>
  Lines 511 and 512: \<^verbatim>\<open>v["eval_frequency"]\<close> raises when the key is absent; a falsy
  value (\<^verbatim>\<open>None\<close> or \<^verbatim>\<open>0\<close>) is replaced by \<^verbatim>\<open>task_config["size"]\<close>.
\<close>

definition default_eval_frequency :: "int option entry \<Rightarrow> int \<Rightarrow> error + int" where
  "default_eval_frequency e sz =
     (case e of
        Absent \<Rightarrow> Inl KeyError
      | Given x \<Rightarrow> Inr (if py_not x then sz else (case x of Some k \<Rightarrow> k | None \<Rightarrow> sz)))"

text \<open>
  Line 535, second argument of \<^verbatim>\<open>min\<close>:
  \<^verbatim>\<open>task_config_instance.vocab_size ** task_config_instance.length\<close>.
\<close>

definition population :: "DatasetConfig \<Rightarrow> error + int" where
  "population i =
     and_then (vocab_size (variant i))
       (\<lambda>vs. case vs of None \<Rightarrow> Inl TypeError | Some b \<Rightarrow> py_pow b (inst_length i))"

text \<open>
  Line 537: the chained assignment writes \<^verbatim>\<open>num_samples\<close> into the SGLD record first
  and into the SGNHT record second; subscripting \<^verbatim>\<open>None\<close> raises.
\<close>

definition copy_num_samples :: "rlct_dict \<Rightarrow> error + rlct_dict" where
  "copy_num_samples r =
     (case sgld_kwargs r of
        None \<Rightarrow> Inl TypeError
      | Some s \<Rightarrow>
          (case sgnht_kwargs r of
             None \<Rightarrow> Inl TypeError
           | Some g \<Rightarrow>
               Inr (r\<lparr>sgld_kwargs := Some (s\<lparr>sgld_num_samples := num_samples r\<rparr>),
                       sgnht_kwargs := Some (g\<lparr>sgnht_num_samples := num_samples r\<rparr>)\<rparr>)))"

text \<open>
  Line 539: \<^verbatim>\<open>assert rlct_config.num_burnin_steps == 0\<close>.  The source reads the same
  mapping by subscript (line 535) and by attribute (here); both are the lookup of the
  key, as for a mapping that offers both.
\<close>

definition burnin_message :: string where
  "burnin_message =
     ''Burn-in is currently not implemented correctly, please set num_burnin_steps to 0.''"

definition assert_no_burnin :: "rlct_dict \<Rightarrow> error + unit" where
  "assert_no_burnin r =
     (if num_burnin_steps r = 0 then Inr () else Inl (AssertionError burnin_message))"

text \<open>
  The validator, step by step in the order of the source.  Line 514 (\<^verbatim>\<open>run_name\<close>)
  formats values that are present into a string which no later step reads; it is not
  modelled.  The guard of line 519 holds whenever line 514 has passed (both mappings
  have a key), so the model-dimension fields are always written.
\<close>

definition set_fields :: "main_dict \<Rightarrow> error + main_dict" where
  "set_fields v =
     and_then (resolve_task (task_config v)) (\<lambda>task_config_instance.
     and_then (default_eval_frequency (eval_frequency v) (size_cfg (task_config v))) (\<lambda>ef.
     and_then (py_ceil_div (num_training_iter v) ef) (\<lambda>epochs.
     and_then (vocab_size (variant task_config_instance)) (\<lambda>vs.
     and_then (output_vocab_size (variant task_config_instance)) (\<lambda>ovs.
     and_then (population task_config_instance) (\<lambda>pop.
     let nano = (nano_gpt_config v)
           \<lparr>block_size := Some (length_cfg (task_config v) + 1),
            gpt_vocab_size := vs,
            gpt_output_vocab_size := ovs\<rparr>;
         r = rlct_config v;
         r1 = r\<lparr>rlct_data_dir :=
                  Some (if \<not> use_distill_loss r then ''rlct_data'' else ''rlct_data_distill''),
                num_samples :=
                  Some (min ((num_draws r * num_steps_bw_draws r + num_burnin_steps r)
                               * train_bs (dataloader_config v)) pop)\<rparr>
     in
     and_then (copy_num_samples r1) (\<lambda>r2.
     and_then (assert_no_burnin r2) (\<lambda>_.
       Inr (v\<lparr>eval_frequency := Given (Some ef),
              is_wandb_enabled := Some (log_to_wandb (wandb_config v)),
              num_epochs := Some epochs,
              nano_gpt_config := nano,
              rlct_config := r2\<rparr>)))))))))"

section \<open>Field validation after the root validator\<close>

text \<open>
  \<^verbatim>\<open>WandBConfig.check_sweep_num(cls, value, values)\<close>, run when the
  \<^verbatim>\<open>wandb_config\<close> group is validated.
\<close>

definition check_sweep_num :: "int option \<Rightarrow> bool \<Rightarrow> error + int option" where
  "check_sweep_num v values_sweep =
     (if values_sweep \<and> v = None
      then Inl (ValueError ''Must specify sweep_num if sweep is True.'')
      else Inr v)"

text \<open>Construction of \<^verbatim>\<open>MainConfig\<close>: the root validator, then the fields.\<close>

definition MainConfig :: "main_dict \<Rightarrow> error + main_dict" where
  "MainConfig raw =
     and_then (set_fields raw) (\<lambda>v.
     and_then (check_sweep_num (sweep_num (wandb_config v)) (sweep (wandb_config v))) (\<lambda>_.
       Inr v))"

section \<open>Callback assembly: \<^verbatim>\<open>create_callbacks\<close>\<close>

text \<open>
  Modelled from the spec: the estimator and diagnostic classes are imported from
  modules that are not among the source files; the spec treats them as opaque handles.
  A handle is the class with the arguments its constructor received in
  \<^verbatim>\<open>create_callbacks\<close>: the chain and draw counts, for the estimators the sample
  count, the device, and for the norms the \<^verbatim>\<open>p_norm\<close>.
\<close>

datatype callback =
    LLCEstimator int int "int option" string
  | OnlineLLCEstimator int int "int option" string
  | OnlineWBICEstimator int int "int option" string
  | WeightNorm int int string int
  | NoiseNorm int int string int
  | GradientNorm int int string int

text \<open>\<^verbatim>\<open>type(callback).__name__\<close>.\<close>

fun callback_name :: "callback \<Rightarrow> string" where
  "callback_name (LLCEstimator c d s dev) = ''LLCEstimator''"
| "callback_name (OnlineLLCEstimator c d s dev) = ''OnlineLLCEstimator''"
| "callback_name (OnlineWBICEstimator c d s dev) = ''OnlineWBICEstimator''"
| "callback_name (WeightNorm c d dev p) = ''WeightNorm''"
| "callback_name (NoiseNorm c d dev p) = ''NoiseNorm''"
| "callback_name (GradientNorm c d dev p) = ''GradientNorm''"

text \<open>
  Modelled from the spec: the chain and draw counts a handle expects are those it was
  built with.
\<close>

fun expectation :: "callback \<Rightarrow> int \<times> int" where
  "expectation (LLCEstimator c d s dev) = (c, d)"
| "expectation (OnlineLLCEstimator c d s dev) = (c, d)"
| "expectation (OnlineWBICEstimator c d s dev) = (c, d)"
| "expectation (WeightNorm c d dev p) = (c, d)"
| "expectation (NoiseNorm c d dev p) = (c, d)"
| "expectation (GradientNorm c d dev p) = (c, d)"

text \<open>
  Modelled from the spec: \<^verbatim>\<open>validate_callbacks\<close> is imported from
  \<^verbatim>\<open>di_automata.devinterp.slt.callback\<close>, which is not among the source files.  The
  spec has it fail with \<^verbatim>\<open>IncompatibleCallbackSet\<close> if two handles declare conflicting
  chain/draw expectations.
\<close>

definition validate_callbacks :: "callback list \<Rightarrow> error + unit" where
  "validate_callbacks cbs =
     (case cbs of
        [] \<Rightarrow> Inr ()
      | c # cs \<Rightarrow>
          if list_all (\<lambda>d. expectation d = expectation c) cs then Inr ()
          else Inl IncompatibleCallbackSet)"

text \<open>
  \<^verbatim>\<open>create_callbacks(config, device)\<close>, with the compatibility check as a parameter:
  the function reads \<^verbatim>\<open>config.rlct_config\<close> only.
\<close>

definition create_callbacks_with ::
    "(callback list \<Rightarrow> error + unit) \<Rightarrow> rlct_dict \<Rightarrow> string
      \<Rightarrow> error + callback list \<times> string list" where
  "create_callbacks_with validate r device =
     (let llc_estimator =
            (if online r
             then OnlineLLCEstimator (num_chains r) (num_draws r) (num_samples r) device
             else LLCEstimator (num_chains r) (num_draws r) (num_samples r) device);
          diagnostics =
            (if use_diagnostics r
             then [OnlineWBICEstimator (num_chains r) (num_draws r) (num_samples r) device,
                   WeightNorm (num_chains r) (num_draws r) device 2,
                   NoiseNorm (num_chains r) (num_draws r) device 2,
                   GradientNorm (num_chains r) (num_draws r) device 2]
             else []);
          callbacks = llc_estimator # diagnostics
      in and_then (validate callbacks) (\<lambda>_. Inr (callbacks, map callback_name callbacks)))"

definition create_callbacks :: "rlct_dict \<Rightarrow> string \<Rightarrow> error + callback list \<times> string list" where
  "create_callbacks = create_callbacks_with validate_callbacks"

section \<open>The formula of the specification, and example inputs\<close>

text \<open>
  The sample budget as the specification's data model words it:
  \<^verbatim>\<open>min(draws * steps_between_draws + burn-in, population bound) * batch_size\<close>.
  It is compared with what \<open>set_fields\<close> computes.
\<close>

definition spec_num_samples :: "int \<Rightarrow> int \<Rightarrow> int \<Rightarrow> int \<Rightarrow> int \<Rightarrow> int" where
  "spec_num_samples draws steps burnin bound bs = min (draws * steps + burnin) bound * bs"

text \<open>
  A parity task on sequences of length 3 (population \<open>2 ^ 3\<close>), with the default chain
  of 100 draws, one step between draws, no burn-in and batches of 64.
\<close>

definition example_task :: task_dict where
  "example_task =
     \<lparr>dataset_type = ''parity'', size_cfg = 600000, length_cfg = 3,
      n = Absent, n_addends = Absent, label_type = Absent,
      generators = Absent, perm_probs = Absent\<rparr>"

definition example_rlct :: rlct_dict where
  "example_rlct =
     \<lparr>sampling_method = Some SGLD, num_chains = 10, num_draws = 100, num_samples = None,
      num_burnin_steps = 0, num_steps_bw_draws = 1, batch_size = 64, online = False,
      use_distill_loss = False, use_diagnostics = True,
      sgld_kwargs = Some \<lparr>sgld_num_samples = None\<rparr>,
      sgnht_kwargs = Some \<lparr>sgnht_num_samples = None\<rparr>,
      rlct_data_dir = None\<rparr>"

definition example_main :: main_dict where
  "example_main =
     \<lparr>task_config = example_task,
      dataloader_config = \<lparr>train_bs = 64\<rparr>,
      nano_gpt_config =
        \<lparr>n_layers = 3, block_size = None, gpt_vocab_size = None,
         gpt_output_vocab_size = None\<rparr>,
      rlct_config = example_rlct,
      wandb_config = \<lparr>log_to_wandb = True, sweep = False, sweep_num = None\<rparr>,
      num_training_iter = 10000, is_wandb_enabled = None, num_epochs = None,
      eval_frequency = Given None\<rparr>"

text \<open>The mapping that \<open>set_fields\<close> returns on \<open>example_main\<close>.\<close>

definition example_derived :: main_dict where
  "example_derived =
     \<lparr>task_config = example_task,
      dataloader_config = \<lparr>train_bs = 64\<rparr>,
      nano_gpt_config =
        \<lparr>n_layers = 3, block_size = Some 4, gpt_vocab_size = Some 2,
         gpt_output_vocab_size = Some 2\<rparr>,
      rlct_config =
        \<lparr>sampling_method = Some SGLD, num_chains = 10, num_draws = 100,
         num_samples = Some 8,
         num_burnin_steps = 0, num_steps_bw_draws = 1, batch_size = 64, online = False,
         use_distill_loss = False, use_diagnostics = True,
         sgld_kwargs = Some \<lparr>sgld_num_samples = Some 8\<rparr>,
         sgnht_kwargs = Some \<lparr>sgnht_num_samples = Some 8\<rparr>,
         rlct_data_dir = Some ''rlct_data''\<rparr>,
      wandb_config = \<lparr>log_to_wandb = True, sweep = False, sweep_num = None\<rparr>,
      num_training_iter = 10000, is_wandb_enabled = Some True, num_epochs = Some 1,
      eval_frequency = Given (Some 600000)\<rparr>"

section \<open>Basic facts\<close>

lemma and_then_Inr [simp]: "and_then (Inr x) f = f x"
  by (simp add: and_then_def)

lemma and_then_Inl [simp]: "and_then (Inl e) f = Inl e"
  by (simp add: and_then_def)

lemma and_then_eq_Inr: "and_then r f = Inr y \<longleftrightarrow> (\<exists>x. r = Inr x \<and> f x = Inr y)"
  by (cases r) simp_all

text \<open>The ceiling of the exact quotient, in integer arithmetic (used to evaluate).\<close>

lemma py_ceil_div_int:
  "py_ceil_div a b = (if b = 0 then Inl ZeroDivisionError else Inr (- ((- a) div b)))"
  by (simp add: py_ceil_div_def ceiling_divide_eq_div)

lemma py_pow_Inr: "py_pow b e = Inr p \<longleftrightarrow> 0 \<le> e \<and> p = b ^ nat e"
  by (auto simp: py_pow_def)

lemmas eval_defs =
  set_fields_def MainConfig_def check_sweep_num_def resolve_task_def config_class_map_def
  construct_def default_eval_frequency_def py_not_def py_ceil_div_int population_def
  py_pow_def copy_num_samples_def assert_no_burnin_def field_default_def label_field_def
  example_main_def example_task_def example_rlct_def example_derived_def

section \<open>Vocabulary sizes\<close>

text \<open>
  Claim C7.  The vocabulary sizes are functions of the variant's own fields, by the
  formulas of the table: for every field value \<open>m\<close>, every integer \<open>j\<close> and every
  natural number \<open>k\<close>.  In particular the adder with 2 addends has input vocabulary 4
  and output vocabulary 6, 2 and 2 for the labels "state", "digit" and "position", and
  the dihedral variant with \<open>n = 4\<close> has output vocabulary 8, 2 and 4 for "state",
  "toggle" and "position"; the label strings are those of the raw mapping.
\<close>

theorem vocabulary_formulas:
  fixes k :: nat and m :: "int option" and j :: int
  shows
  "vocab_size ParityAutomatonConfig = Inr (Some 2)
   \<and> output_vocab_size ParityAutomatonConfig = Inr (Some 2)
   \<and> vocab_size (GridworldAutomatonConfig m gl) = Inr (Some 2)
   \<and> output_vocab_size (GridworldAutomatonConfig m (Some GW_STATE)) = Inr m
   \<and> output_vocab_size (GridworldAutomatonConfig m (Some GW_PARITY)) = Inr (Some 2)
   \<and> output_vocab_size (GridworldAutomatonConfig m (Some GW_BOUNDARY)) = Inr (Some 2)
   \<and> vocab_size (ABABAutomatonConfig al) = Inr (Some 2)
   \<and> output_vocab_size (ABABAutomatonConfig (Some AB_STATE)) = Inr (Some 4)
   \<and> output_vocab_size (ABABAutomatonConfig (Some AB_BOUNDARY)) = Inr (Some 2)
   \<and> vocab_size (AdderAutomatonConfig m dl) = Inr (Some 4)
   \<and> output_vocab_size (AdderAutomatonConfig (Some (int k)) (Some AD_STATE))
         = Inr (Some (2 * (2 ^ k - 1)))
   \<and> output_vocab_size (AdderAutomatonConfig m (Some AD_DIGIT)) = Inr m
   \<and> output_vocab_size (AdderAutomatonConfig m (Some AD_POSITION)) = Inr (Some 2)
   \<and> vocab_size (FlipFlopAutomatonConfig (Some j)) = Inr (Some (j + 1))
   \<and> output_vocab_size (FlipFlopAutomatonConfig (Some j)) = Inr (Some (j + 1))
   \<and> vocab_size (SymmetricAutomatonConfig m pl) = Inr m
   \<and> vocab_size (AlternatingAutomatonConfig m pl) = Inr m
   \<and> output_vocab_size (SymmetricAutomatonConfig (Some (int k)) (Some PM_STATE))
         = Inr (Some (fact k))
   \<and> output_vocab_size (AlternatingAutomatonConfig (Some (int k)) (Some PM_STATE))
         = Inr (Some (fact k))
   \<and> output_vocab_size (SymmetricAutomatonConfig m (Some PM_FIRST_CHAIR)) = Inr m
   \<and> output_vocab_size (AlternatingAutomatonConfig m (Some PM_FIRST_CHAIR)) = Inr m
   \<and> vocab_size (CyclicAutomatonConfig m) = Inr m
   \<and> output_vocab_size (CyclicAutomatonConfig m) = Inr m
   \<and> vocab_size (DihedralAutomatonConfig m hl) = Inr (Some 2)
   \<and> output_vocab_size (DihedralAutomatonConfig (Some j) (Some DH_STATE)) = Inr (Some (2 * j))
   \<and> output_vocab_size (DihedralAutomatonConfig m (Some DH_TOGGLE)) = Inr (Some 2)
   \<and> output_vocab_size (DihedralAutomatonConfig m (Some DH_POSITION)) = Inr m
   \<and> vocab_size QuaternionAutomatonConfig = Inr (Some 4)
   \<and> output_vocab_size QuaternionAutomatonConfig = Inr (Some 8)
   \<and> vocab_size (PermutationResetAutomatonConfig (int k) gens pp)
         = Inr (Some (fact k + int (length gens)))
   \<and> output_vocab_size (PermutationResetAutomatonConfig (int k) gens pp) = Inr (Some (fact k))
   \<and> construct_variant ADDER
         (d\<lparr>n_addends := Given (Some 2), label_type := Given (Some ''state'')\<rparr>)
         = Inr (AdderAutomatonConfig (Some 2) (Some AD_STATE))
   \<and> construct_variant ADDER
         (d\<lparr>n_addends := Given (Some 2), label_type := Given (Some ''digit'')\<rparr>)
         = Inr (AdderAutomatonConfig (Some 2) (Some AD_DIGIT))
   \<and> construct_variant ADDER
         (d\<lparr>n_addends := Given (Some 2), label_type := Given (Some ''position'')\<rparr>)
         = Inr (AdderAutomatonConfig (Some 2) (Some AD_POSITION))
   \<and> vocab_size (AdderAutomatonConfig (Some 2) dl) = Inr (Some 4)
   \<and> output_vocab_size (AdderAutomatonConfig (Some 2) (Some AD_STATE)) = Inr (Some 6)
   \<and> output_vocab_size (AdderAutomatonConfig (Some 2) (Some AD_DIGIT)) = Inr (Some 2)
   \<and> output_vocab_size (AdderAutomatonConfig (Some 2) (Some AD_POSITION)) = Inr (Some 2)
   \<and> construct_variant DIHEDRAL
         (d\<lparr>n := Given (Some 4), label_type := Given (Some ''state'')\<rparr>)
         = Inr (DihedralAutomatonConfig (Some 4) (Some DH_STATE))
   \<and> construct_variant DIHEDRAL
         (d\<lparr>n := Given (Some 4), label_type := Given (Some ''toggle'')\<rparr>)
         = Inr (DihedralAutomatonConfig (Some 4) (Some DH_TOGGLE))
   \<and> construct_variant DIHEDRAL
         (d\<lparr>n := Given (Some 4), label_type := Given (Some ''position'')\<rparr>)
         = Inr (DihedralAutomatonConfig (Some 4) (Some DH_POSITION))
   \<and> output_vocab_size (DihedralAutomatonConfig (Some 4) (Some DH_STATE)) = Inr (Some 8)
   \<and> output_vocab_size (DihedralAutomatonConfig (Some 4) (Some DH_TOGGLE)) = Inr (Some 2)
   \<and> output_vocab_size (DihedralAutomatonConfig (Some 4) (Some DH_POSITION)) = Inr (Some 4)"
  by (simp add: py_pow_def py_factorial_def permutation_output_vocab_size_def
      label_field_def field_default_def adder_label_of_def dihedral_label_of_def)

section \<open>The permutation-with-reset validators\<close>

lemma set_perm_probs_None:
  "set_perm_probs None (Some gens) = replicate (length gens) (1 / of_nat (length gens))"
  by (simp add: set_perm_probs_def Let_def map_replicate_const)

lemma permutation_reset_Inr:
  assumes "permutation_reset d = Inr a"
  obtains k g rest where
    "field_default (Some 4) (n d) = Some k"
    "field_default default_generators (generators d) = g # rest"
    "int (length g) = k"
    "a = PermutationResetAutomatonConfig k (g # rest)
           (set_perm_probs (field_default None (perm_probs d)) (Some (g # rest)))"
  using assms unfolding permutation_reset_def Let_def and_then_eq_Inr check_generators_def
  by (auto split: list.splits option.splits if_splits)

text \<open>
  Claim C9.  When the probability list is \<^verbatim>\<open>None\<close>, \<open>set_perm_probs\<close> returns the
  uniform list: as many entries as there are generators, each \<open>1 / (number of
  generators)\<close>, and the empty list for no generators (or when the generators are
  missing from the validated values); a supplied list is returned as it is.  So a
  constructed permutation-with-reset variant holds the uniform list over its generators
  when the list was omitted or \<^verbatim>\<open>None\<close>, and the supplied list otherwise.
\<close>

theorem perm_probs_uniform:
  "set_perm_probs None (Some gens) = replicate (length gens) (1 / of_nat (length gens))
   \<and> set_perm_probs None (Some []) = []
   \<and> set_perm_probs None None = []
   \<and> set_perm_probs (Some p) vg = p
   \<and> (permutation_reset d = Inr a \<longrightarrow>
        (\<exists>k gs. gs = field_default default_generators (generators d)
           \<and> a = PermutationResetAutomatonConfig k gs
                 (case field_default None (perm_probs d) of
                    None \<Rightarrow> replicate (length gs) (1 / of_nat (length gs))
                  | Some q \<Rightarrow> q)))"
proof (intro conjI impI)
  show "set_perm_probs None (Some gens) = replicate (length gens) (1 / of_nat (length gens))"
    by (rule set_perm_probs_None)
  show "set_perm_probs None (Some []) = []"
    by (simp add: set_perm_probs_def)
  show "set_perm_probs None None = []"
    by (simp add: set_perm_probs_def)
  show "set_perm_probs (Some p) vg = p"
    by (simp add: set_perm_probs_def)
next
  assume "permutation_reset d = Inr a"
  then show "\<exists>k gs. gs = field_default default_generators (generators d)
           \<and> a = PermutationResetAutomatonConfig k gs
                 (case field_default None (perm_probs d) of
                    None \<Rightarrow> replicate (length gs) (1 / of_nat (length gs))
                  | Some q \<Rightarrow> q)"
  proof (rule permutation_reset_Inr)
    fix k g rest
    assume gs: "field_default default_generators (generators d) = g # rest"
      and a: "a = PermutationResetAutomatonConfig k (g # rest)
           (set_perm_probs (field_default None (perm_probs d)) (Some (g # rest)))"
    show ?thesis
    proof (cases "field_default None (perm_probs d)")
      case None
      with gs a show ?thesis by (simp add: set_perm_probs_None)
    next
      case (Some q)
      with gs a show ?thesis by (simp add: set_perm_probs_def)
    qed
  qed
qed

text \<open>
  Three generators on three points and no probability list: the construction succeeds
  and each generator gets probability one third.
\<close>

theorem perm_probs_uniform_witness:
  "permutation_reset (example_task\<lparr>n := Given (Some 3),
       generators := Given [[1, 0, 2], [2, 0, 1], [0, 2, 1]]\<rparr>)
     = Inr (PermutationResetAutomatonConfig 3 [[1, 0, 2], [2, 0, 1], [0, 2, 1]]
             (set_perm_probs None (Some [[1, 0, 2], [2, 0, 1], [0, 2, 1]])))
   \<and> set_perm_probs None (Some [[1, 0, 2], [2, 0, 1], [0, 2, 1]]) = [1 / 3, 1 / 3, 1 / 3]
   \<and> (\<exists>k gs. gs = [[1, 0, 2], [2, 0, 1], [0, 2, 1]]
         \<and> PermutationResetAutomatonConfig 3 [[1, 0, 2], [2, 0, 1], [0, 2, 1]]
             (set_perm_probs None (Some [[1, 0, 2], [2, 0, 1], [0, 2, 1]]))
           = PermutationResetAutomatonConfig k gs [1 / 3, 1 / 3, 1 / 3])"
proof -
  let ?gs = "[[1, 0, 2], [2, 0, 1], [0, 2, 1::int]]"
  let ?d = "example_task\<lparr>n := Given (Some 3), generators := Given ?gs\<rparr>"
  let ?a = "PermutationResetAutomatonConfig 3 ?gs (set_perm_probs None (Some ?gs))"
  have 1: "permutation_reset ?d = Inr ?a"
    by (simp add: permutation_reset_def check_generators_def field_default_def
        example_task_def)
  have 2: "set_perm_probs None (Some ?gs) = replicate (length ?gs) (1 / of_nat (length ?gs))"
    using perm_probs_uniform [of ?gs p vg ?d ?a] by (rule conjunct1)
  have 3: "replicate (length ?gs) (1 / of_nat (length ?gs)) = [1 / 3, 1 / 3, 1 / (3::rat)]"
    by (simp add: numeral_3_eq_3)
  have "permutation_reset ?d = Inr ?a \<longrightarrow>
        (\<exists>k gs. gs = field_default default_generators (generators ?d)
           \<and> ?a = PermutationResetAutomatonConfig k gs
                 (case field_default None (perm_probs ?d) of
                    None \<Rightarrow> replicate (length gs) (1 / of_nat (length gs))
                  | Some q \<Rightarrow> q))"
    using perm_probs_uniform [of ?gs p vg ?d ?a] by (elim conjE)
  from mp [OF this 1] have 4: "\<exists>k gs. gs = ?gs
         \<and> ?a = PermutationResetAutomatonConfig k gs [1 / 3, 1 / 3, 1 / 3]"
    by (simp add: field_default_def example_task_def numeral_3_eq_3)
  from 1 2 3 4 show ?thesis by simp
qed

text \<open>
  Claim C10.  Construction of the permutation-with-reset variant looks at the first
  generator only.  It succeeds exactly when there is a first generator and its length
  is the (given or default) \<open>n\<close>.  With \<open>n = k\<close> and generators \<open>g # rest\<close> it succeeds
  if \<open>length g = k\<close> and fails with the assertion otherwise, whatever \<open>rest\<close> holds:
  for \<open>n = 2\<close> the generators \<open>[[1, 0], [0, 1, 2], []]\<close> are accepted and
  \<open>[[1, 0, 2], [0, 1]]\<close> are rejected.  An empty list of generators fails on
  \<^verbatim>\<open>v[0]\<close>, and the class defaults (\<open>n = 4\<close>, generators of length 5) fail the
  assertion.
\<close>

theorem check_generators_first_only:
  "((\<exists>a. permutation_reset d = Inr a) \<longleftrightarrow>
      (\<exists>g rest. field_default default_generators (generators d) = g # rest
         \<and> field_default (Some 4) (n d) = Some (int (length g))))
   \<and> permutation_reset (d\<lparr>n := Given (Some k), generators := Given (g # rest)\<rparr>) =
       (if int (length g) = k
        then Inr (PermutationResetAutomatonConfig k (g # rest)
                    (set_perm_probs (field_default None (perm_probs d)) (Some (g # rest))))
        else Inl (AssertionError ''Generators must be of length n.''))
   \<and> permutation_reset (d\<lparr>generators := Given []\<rparr>) = Inl IndexError
   \<and> permutation_reset
        (d\<lparr>n := Given (Some 2), generators := Given [[1, 0], [0, 1, 2], []]\<rparr>) =
       Inr (PermutationResetAutomatonConfig 2 [[1, 0], [0, 1, 2], []]
              (set_perm_probs (field_default None (perm_probs d))
                 (Some [[1, 0], [0, 1, 2], []])))
   \<and> permutation_reset (d\<lparr>n := Given (Some 2), generators := Given [[1, 0, 2], [0, 1]]\<rparr>) =
       Inl (AssertionError ''Generators must be of length n.'')
   \<and> permutation_reset (d\<lparr>n := Absent, generators := Absent\<rparr>) =
       Inl (AssertionError ''Generators must be of length n.'')"
proof (intro conjI)
  show "(\<exists>a. permutation_reset d = Inr a) \<longleftrightarrow>
      (\<exists>g rest. field_default default_generators (generators d) = g # rest
         \<and> field_default (Some 4) (n d) = Some (int (length g)))"
    unfolding permutation_reset_def Let_def and_then_eq_Inr check_generators_def
    by (auto split: list.splits option.splits if_splits)
qed (simp_all add: permutation_reset_def check_generators_def field_default_def
       default_generators_def)

section \<open>What a successful derivation has done\<close>

lemma set_fields_Inr:
  assumes "set_fields v = Inr c"
  obtains inst ef epochs vs ovs pop r2 where
    "resolve_task (task_config v) = Inr inst"
    "default_eval_frequency (eval_frequency v) (size_cfg (task_config v)) = Inr ef"
    "py_ceil_div (num_training_iter v) ef = Inr epochs"
    "vocab_size (variant inst) = Inr vs"
    "output_vocab_size (variant inst) = Inr ovs"
    "population inst = Inr pop"
    "copy_num_samples ((rlct_config v)
        \<lparr>rlct_data_dir :=
           Some (if \<not> use_distill_loss (rlct_config v) then ''rlct_data''
                 else ''rlct_data_distill''),
         num_samples :=
           Some (min ((num_draws (rlct_config v) * num_steps_bw_draws (rlct_config v)
                        + num_burnin_steps (rlct_config v)) * train_bs (dataloader_config v))
                   pop)\<rparr>)
       = Inr r2"
    "assert_no_burnin r2 = Inr ()"
    "c = v\<lparr>eval_frequency := Given (Some ef),
           is_wandb_enabled := Some (log_to_wandb (wandb_config v)),
           num_epochs := Some epochs,
           nano_gpt_config := (nano_gpt_config v)
             \<lparr>block_size := Some (length_cfg (task_config v) + 1),
              gpt_vocab_size := vs, gpt_output_vocab_size := ovs\<rparr>,
           rlct_config := r2\<rparr>"
  using assms unfolding set_fields_def Let_def and_then_eq_Inr by auto

lemma copy_num_samples_Inr:
  assumes "copy_num_samples r = Inr r2"
  obtains s g where "sgld_kwargs r = Some s" "sgnht_kwargs r = Some g"
    "r2 = r\<lparr>sgld_kwargs := Some (s\<lparr>sgld_num_samples := num_samples r\<rparr>),
            sgnht_kwargs := Some (g\<lparr>sgnht_num_samples := num_samples r\<rparr>)\<rparr>"
  using assms unfolding copy_num_samples_def by (auto split: option.splits)

lemma population_Inr:
  assumes "population i = Inr pop"
  obtains b where "vocab_size (variant i) = Inr (Some b)" "py_pow b (inst_length i) = Inr pop"
  using assms unfolding population_def and_then_eq_Inr by (auto split: option.splits)

lemma resolve_task_length: "resolve_task d = Inr i \<Longrightarrow> inst_length i = length_cfg d"
  by (auto simp: resolve_task_def construct_def and_then_eq_Inr split: option.splits)

lemma MainConfig_Inr: "MainConfig v = Inr c \<Longrightarrow> set_fields v = Inr c"
  by (auto simp: MainConfig_def and_then_eq_Inr)

lemma MainConfig_isl: "isl (set_fields v) \<Longrightarrow> isl (MainConfig v)"
  by (cases "set_fields v") (simp_all add: MainConfig_def)

lemma set_fields_example: "set_fields example_main = Inr example_derived"
  by (simp add: eval_defs)

lemma resolve_task_example:
  "resolve_task (task_config example_main) =
     Inr \<lparr>inst_size = 600000, inst_length = 3, variant = ParityAutomatonConfig\<rparr>"
  by (simp add: eval_defs)

section \<open>The sample budget\<close>

lemma set_fields_num_samples:
  assumes ok: "set_fields v = Inr c"
    and inst: "resolve_task (task_config v) = Inr inst"
    and vs: "vocab_size (variant inst) = Inr (Some b)"
  shows "num_samples (rlct_config c) =
           Some (min ((num_draws (rlct_config v) * num_steps_bw_draws (rlct_config v)
                        + num_burnin_steps (rlct_config v)) * train_bs (dataloader_config v))
                   (b ^ nat (length_cfg (task_config v))))"
proof -
  from ok obtain inst' pop r2 where
    i': "resolve_task (task_config v) = Inr inst'" and
    pop: "population inst' = Inr pop" and
    cp: "copy_num_samples ((rlct_config v)
        \<lparr>rlct_data_dir :=
           Some (if \<not> use_distill_loss (rlct_config v) then ''rlct_data''
                 else ''rlct_data_distill''),
         num_samples :=
           Some (min ((num_draws (rlct_config v) * num_steps_bw_draws (rlct_config v)
                        + num_burnin_steps (rlct_config v)) * train_bs (dataloader_config v))
                   pop)\<rparr>)
       = Inr r2" and
    c: "rlct_config c = r2"
    by (rule set_fields_Inr) simp
  from i' inst have same: "inst' = inst" by simp
  from pop same vs have "py_pow b (inst_length inst) = Inr pop"
    by (auto elim: population_Inr)
  then have "pop = b ^ nat (length_cfg (task_config v))"
    using resolve_task_length [OF inst] by (simp add: py_pow_Inr)
  moreover from cp have "num_samples r2 =
      Some (min ((num_draws (rlct_config v) * num_steps_bw_draws (rlct_config v)
                        + num_burnin_steps (rlct_config v)) * train_bs (dataloader_config v))
                   pop)"
    by (auto elim!: copy_num_samples_Inr)
  ultimately show ?thesis using c by simp
qed

text \<open>
  Claim C1, as amended.  For every raw input that successfully derives a configuration
  (the sequence length non-negative, so that the population bound is an integer), the
  derived \<open>num_samples\<close> is
  \<open>min ((num_draws * num_steps_bw_draws + num_burnin_steps) * train_bs) (vocab_size ^ length)\<close>
  with \<open>train_bs\<close> the training batch size of the data loader: the product with the
  batch size is taken before the minimum with the population bound, not after it.
\<close>

theorem num_samples_derived:
  assumes "set_fields v = Inr c"
    and "0 \<le> length_cfg (task_config v)"
    and "resolve_task (task_config v) = Inr inst"
    and "vocab_size (variant inst) = Inr (Some b)"
  shows "num_samples (rlct_config c) =
           Some (min ((num_draws (rlct_config v) * num_steps_bw_draws (rlct_config v)
                        + num_burnin_steps (rlct_config v)) * train_bs (dataloader_config v))
                   (b ^ nat (length_cfg (task_config v))))"
  using assms(1,3,4) by (rule set_fields_num_samples)

text \<open>On the example: 100 draws in batches of 64 against a population of 8.\<close>

theorem num_samples_derived_witness:
  "set_fields example_main = Inr example_derived
   \<and> 0 \<le> length_cfg (task_config example_main)
   \<and> resolve_task (task_config example_main) =
       Inr \<lparr>inst_size = 600000, inst_length = 3, variant = ParityAutomatonConfig\<rparr>
   \<and> vocab_size ParityAutomatonConfig = Inr (Some 2)
   \<and> num_samples (rlct_config example_derived) = Some (min ((100 * 1 + 0) * 64) (2 ^ 3))"
proof -
  note 1 = set_fields_example
  have 2: "0 \<le> length_cfg (task_config example_main)"
    by (simp add: example_main_def example_task_def)
  note 3 = resolve_task_example
  have 4: "vocab_size (variant \<lparr>inst_size = 600000, inst_length = 3,
      variant = ParityAutomatonConfig\<rparr>) = Inr (Some 2)"
    by simp
  from num_samples_derived [OF 1 2 3 4] 1 2 3 show ?thesis
    by (simp add: example_main_def example_task_def example_rlct_def)
qed

text \<open>
  Claim C1 as stated fails on the example: the derivation succeeds with
  \<open>num_samples = 8\<close>, the population bound \<open>2 ^ 3\<close>, while the formula of the
  specification gives \<open>min 100 8 * 64 = 512\<close>, with the RLCT batch size as well as with
  the training batch size.
\<close>

theorem spec_num_samples_counterexample:
  "set_fields example_main = Inr example_derived
   \<and> num_samples (rlct_config example_derived) = Some 8
   \<and> and_then (resolve_task (task_config example_main)) population = Inr (2 ^ 3)
   \<and> spec_num_samples (num_draws (rlct_config example_main))
        (num_steps_bw_draws (rlct_config example_main))
        (num_burnin_steps (rlct_config example_main)) (2 ^ 3)
        (batch_size (rlct_config example_main)) = 512
   \<and> spec_num_samples (num_draws (rlct_config example_main))
        (num_steps_bw_draws (rlct_config example_main))
        (num_burnin_steps (rlct_config example_main)) (2 ^ 3)
        (train_bs (dataloader_config example_main)) = 512
   \<and> num_samples (rlct_config example_derived) \<noteq>
       Some (spec_num_samples (num_draws (rlct_config example_main))
               (num_steps_bw_draws (rlct_config example_main))
               (num_burnin_steps (rlct_config example_main)) (2 ^ 3)
               (batch_size (rlct_config example_main)))"
  by (simp add: eval_defs spec_num_samples_def)

text \<open>
  Claim C3.  Whatever the draw, step, burn-in and batch-size inputs, a successfully
  derived \<open>num_samples\<close> is at most \<open>vocab_size ^ length\<close> of the resolved task (the
  sequence length non-negative, so that the bound is an integer).
\<close>

theorem num_samples_bounded:
  assumes "set_fields v = Inr c"
    and "0 \<le> length_cfg (task_config v)"
    and "resolve_task (task_config v) = Inr inst"
    and "vocab_size (variant inst) = Inr (Some b)"
  shows "\<exists>ns. num_samples (rlct_config c) = Some ns \<and> ns \<le> b ^ nat (inst_length inst)"
  using set_fields_num_samples [OF assms(1,3,4)] resolve_task_length [OF assms(3)]
  by simp

theorem num_samples_bounded_witness:
  "set_fields example_main = Inr example_derived
   \<and> 0 \<le> length_cfg (task_config example_main)
   \<and> resolve_task (task_config example_main) =
       Inr \<lparr>inst_size = 600000, inst_length = 3, variant = ParityAutomatonConfig\<rparr>
   \<and> vocab_size ParityAutomatonConfig = Inr (Some 2)
   \<and> (\<exists>ns. num_samples (rlct_config example_derived) = Some ns \<and> ns \<le> 2 ^ 3)"
proof -
  note 1 = set_fields_example
  have 2: "0 \<le> length_cfg (task_config example_main)"
    by (simp add: example_main_def example_task_def)
  note 3 = resolve_task_example
  have 4: "vocab_size (variant \<lparr>inst_size = 600000, inst_length = 3,
      variant = ParityAutomatonConfig\<rparr>) = Inr (Some 2)"
    by simp
  from num_samples_bounded [OF 1 2 3 4] 1 2 3 show ?thesis
    by simp
qed

text \<open>
  Claim C2.  After every successful derivation both sampler records are present, and
  the \<open>num_samples\<close> of the SGLD record and of the SGNHT record are the RLCT
  \<open>num_samples\<close>; the selected sampling method is not consulted and is left as it was.
\<close>

theorem sampler_records_synchronized:
  assumes "set_fields v = Inr c"
  shows "\<exists>s g ns. sgld_kwargs (rlct_config c) = Some s
           \<and> sgnht_kwargs (rlct_config c) = Some g
           \<and> num_samples (rlct_config c) = Some ns
           \<and> sgld_num_samples s = Some ns
           \<and> sgnht_num_samples g = Some ns
           \<and> sampling_method (rlct_config c) = sampling_method (rlct_config v)"
  using assms by (auto elim!: set_fields_Inr copy_num_samples_Inr)

theorem sampler_records_synchronized_witness:
  "set_fields example_main = Inr example_derived
   \<and> sgld_kwargs (rlct_config example_derived) = Some \<lparr>sgld_num_samples = Some 8\<rparr>
   \<and> sgnht_kwargs (rlct_config example_derived) = Some \<lparr>sgnht_num_samples = Some 8\<rparr>
   \<and> num_samples (rlct_config example_derived) = Some 8"
proof -
  note 1 = set_fields_example
  from sampler_records_synchronized [OF 1] 1 show ?thesis
    by (auto simp: example_derived_def)
qed

section \<open>Burn-in\<close>

lemma set_fields_burnin_fails:
  assumes nz: "num_burnin_steps (rlct_config v) \<noteq> 0"
  shows "isl (set_fields v)"
proof (cases "set_fields v")
  case (Inl e)
  then show ?thesis by simp
next
  case (Inr c)
  then obtain r1 r2 where cp: "copy_num_samples r1 = Inr r2"
    and r1: "num_burnin_steps r1 = num_burnin_steps (rlct_config v)"
    and a: "assert_no_burnin r2 = Inr ()"
    by (rule set_fields_Inr) simp
  from cp r1 have "num_burnin_steps r2 = num_burnin_steps (rlct_config v)"
    by (auto elim!: copy_num_samples_Inr)
  with a nz show ?thesis by (simp add: assert_no_burnin_def split: if_splits)
qed

lemma set_fields_burnin_only:
  assumes ok: "set_fields (v\<lparr>rlct_config := (rlct_config v)\<lparr>num_burnin_steps := 0\<rparr>\<rparr>) = Inr c"
    and nz: "b \<noteq> 0"
  shows "set_fields (v\<lparr>rlct_config := (rlct_config v)\<lparr>num_burnin_steps := b\<rparr>\<rparr>)
           = Inl (AssertionError burnin_message)"
  using ok nz unfolding set_fields_def Let_def and_then_eq_Inr
  by (auto simp: copy_num_samples_def assert_no_burnin_def split: option.splits)

text \<open>
  Claim C4.  Whenever the burn-in step count of the raw input is not zero, the root
  validator and with it the construction fail; the burn-in check itself raises the
  assertion error with the burn-in message for a nonzero count and passes for zero.
  The failure is that assertion whenever burn-in is the only obstacle: if the input
  derives with the count set to 0, it fails with the burn-in assertion for every other
  count \<open>b\<close>.
\<close>

theorem burnin_unsupported:
  "(num_burnin_steps (rlct_config v) \<noteq> 0 \<longrightarrow> isl (set_fields v) \<and> isl (MainConfig v))
   \<and> (num_burnin_steps r \<noteq> 0 \<longrightarrow> assert_no_burnin r = Inl (AssertionError burnin_message))
   \<and> (num_burnin_steps r = 0 \<longrightarrow> assert_no_burnin r = Inr ())
   \<and> (set_fields (v\<lparr>rlct_config := (rlct_config v)\<lparr>num_burnin_steps := 0\<rparr>\<rparr>) = Inr c
        \<and> b \<noteq> 0 \<longrightarrow>
      set_fields (v\<lparr>rlct_config := (rlct_config v)\<lparr>num_burnin_steps := b\<rparr>\<rparr>)
        = Inl (AssertionError burnin_message))"
  using set_fields_burnin_fails [of v] MainConfig_isl [of v] set_fields_burnin_only [of v c b]
  by (simp add: assert_no_burnin_def)

text \<open>The example derives with no burn-in and fails the assertion with 5 burn-in steps.\<close>

theorem burnin_unsupported_witness:
  "num_burnin_steps
     (rlct_config (example_main\<lparr>rlct_config := example_rlct\<lparr>num_burnin_steps := 5\<rparr>\<rparr>)) \<noteq> 0
   \<and> isl (set_fields (example_main\<lparr>rlct_config := example_rlct\<lparr>num_burnin_steps := 5\<rparr>\<rparr>))
   \<and> isl (MainConfig (example_main\<lparr>rlct_config := example_rlct\<lparr>num_burnin_steps := 5\<rparr>\<rparr>))
   \<and> assert_no_burnin (example_rlct\<lparr>num_burnin_steps := 5\<rparr>)
       = Inl (AssertionError burnin_message)
   \<and> num_burnin_steps example_rlct = 0
   \<and> assert_no_burnin example_rlct = Inr ()
   \<and> set_fields (example_main\<lparr>rlct_config := example_rlct\<lparr>num_burnin_steps := 0\<rparr>\<rparr>)
       = Inr example_derived
   \<and> set_fields (example_main\<lparr>rlct_config := example_rlct\<lparr>num_burnin_steps := 5\<rparr>\<rparr>)
       = Inl (AssertionError burnin_message)"
proof -
  let ?r5 = "example_rlct\<lparr>num_burnin_steps := 5\<rparr>"
  let ?v5 = "example_main\<lparr>rlct_config := ?r5\<rparr>"
  have v5: "num_burnin_steps (rlct_config ?v5) \<noteq> 0" and r5: "num_burnin_steps ?r5 \<noteq> 0"
    by simp_all
  have r0: "num_burnin_steps example_rlct = 0"
    by (simp add: example_rlct_def)
  have to0: "?v5\<lparr>rlct_config := (rlct_config ?v5)\<lparr>num_burnin_steps := 0\<rparr>\<rparr>
      = example_main\<lparr>rlct_config := example_rlct\<lparr>num_burnin_steps := 0\<rparr>\<rparr>"
    and to5: "?v5\<lparr>rlct_config := (rlct_config ?v5)\<lparr>num_burnin_steps := 5\<rparr>\<rparr> = ?v5"
    by simp_all
  have ok: "set_fields (example_main\<lparr>rlct_config := example_rlct\<lparr>num_burnin_steps := 0\<rparr>\<rparr>)
      = Inr example_derived"
    by (simp add: eval_defs)
  have five: "(5::int) \<noteq> 0" by simp
  note T = burnin_unsupported [of ?v5 ?r5 example_derived 5, unfolded to0 to5]
  from T v5 have a: "isl (set_fields ?v5) \<and> isl (MainConfig ?v5)" by blast
  from T r5 have b: "assert_no_burnin ?r5 = Inl (AssertionError burnin_message)" by blast
  from T ok five have c: "set_fields ?v5 = Inl (AssertionError burnin_message)" by blast
  from burnin_unsupported [of v example_rlct c b] r0
  have d: "assert_no_burnin example_rlct = Inr ()" by blast
  from v5 a b r0 d ok c show ?thesis by blast
qed

section \<open>Evaluation frequency and epochs\<close>


lemma set_fields_eval_frequency:
  assumes "set_fields v = Inr c"
  obtains ef where
    "default_eval_frequency (eval_frequency v) (size_cfg (task_config v)) = Inr ef"
    "ef \<noteq> 0"
    "eval_frequency c = Given (Some ef)"
    "num_epochs c = Some \<lceil>(of_int (num_training_iter v) :: rat) / of_int ef\<rceil>"
    "num_training_iter c = num_training_iter v"
  using assms
  by (elim set_fields_Inr) (auto simp: py_ceil_div_def split: if_splits)



lemma set_fields_zero_frequency:
  assumes "resolve_task (task_config v) = Inr inst"
    and "default_eval_frequency (eval_frequency v) (size_cfg (task_config v)) = Inr 0"
  shows "set_fields v = Inl ZeroDivisionError"
  using assms by (simp add: set_fields_def py_ceil_div_def)

lemma set_fields_zero_frequency_isl:
  assumes "default_eval_frequency (eval_frequency v) (size_cfg (task_config v)) = Inr 0"
  shows "isl (set_fields v)"
  using assms
  by (cases "resolve_task (task_config v)") (simp_all add: set_fields_def py_ceil_div_def)

text \<open>
  Claim C6, as amended.  The sign of the evaluation frequency is not checked.
  Construction fails whenever the effective \<open>eval_frequency\<close> (the raw value, or the
  task's size where the raw value is \<^verbatim>\<open>None\<close> or 0) is zero, with the division by
  zero of the epoch count once the task has been resolved; a successfully derived
  configuration never has \<open>eval_frequency = 0\<close>.  Nothing is promised for negative
  values.
\<close>

theorem zero_eval_frequency_rejected:
  "(default_eval_frequency (eval_frequency v) (size_cfg (task_config v)) = Inr 0 \<longrightarrow>
      isl (set_fields v) \<and> isl (MainConfig v))
   \<and> (resolve_task (task_config v) = Inr inst
        \<and> default_eval_frequency (eval_frequency v) (size_cfg (task_config v)) = Inr 0 \<longrightarrow>
      set_fields v = Inl ZeroDivisionError \<and> MainConfig v = Inl ZeroDivisionError)
   \<and> (MainConfig v = Inr c \<longrightarrow> set_fields v = Inr c)
   \<and> (set_fields v = Inr c \<longrightarrow>
        (\<exists>ef. default_eval_frequency (eval_frequency v) (size_cfg (task_config v)) = Inr ef
           \<and> eval_frequency c = Given (Some ef) \<and> ef \<noteq> 0))"
proof (intro conjI impI)
  assume z: "default_eval_frequency (eval_frequency v) (size_cfg (task_config v)) = Inr 0"
  then show "isl (set_fields v)" by (rule set_fields_zero_frequency_isl)
  then show "isl (MainConfig v)" by (rule MainConfig_isl)
next
  assume "resolve_task (task_config v) = Inr inst
        \<and> default_eval_frequency (eval_frequency v) (size_cfg (task_config v)) = Inr 0"
  then show z: "set_fields v = Inl ZeroDivisionError"
    by (simp add: set_fields_zero_frequency)
  then show "MainConfig v = Inl ZeroDivisionError"
    by (simp add: MainConfig_def)
next
  assume "MainConfig v = Inr c"
  then show "set_fields v = Inr c" by (rule MainConfig_Inr)
next
  assume "set_fields v = Inr c"
  then show "\<exists>ef. default_eval_frequency (eval_frequency v) (size_cfg (task_config v)) = Inr ef
           \<and> eval_frequency c = Given (Some ef) \<and> ef \<noteq> 0"
    by (elim set_fields_eval_frequency) simp
qed

text \<open>
  The example with a task of size 0: the unset frequency defaults to 0 and the
  construction fails with the division by zero.  The example itself derives, with the
  nonzero frequency 600000.
\<close>

theorem zero_eval_frequency_rejected_witness:
  "default_eval_frequency
      (eval_frequency (example_main\<lparr>task_config := example_task\<lparr>size_cfg := 0\<rparr>\<rparr>))
      (size_cfg (task_config (example_main\<lparr>task_config := example_task\<lparr>size_cfg := 0\<rparr>\<rparr>)))
     = Inr 0
   \<and> resolve_task (task_config (example_main\<lparr>task_config := example_task\<lparr>size_cfg := 0\<rparr>\<rparr>))
       = Inr \<lparr>inst_size = 0, inst_length = 3, variant = ParityAutomatonConfig\<rparr>
   \<and> isl (set_fields (example_main\<lparr>task_config := example_task\<lparr>size_cfg := 0\<rparr>\<rparr>))
   \<and> isl (MainConfig (example_main\<lparr>task_config := example_task\<lparr>size_cfg := 0\<rparr>\<rparr>))
   \<and> set_fields (example_main\<lparr>task_config := example_task\<lparr>size_cfg := 0\<rparr>\<rparr>)
       = Inl ZeroDivisionError
   \<and> MainConfig (example_main\<lparr>task_config := example_task\<lparr>size_cfg := 0\<rparr>\<rparr>)
       = Inl ZeroDivisionError
   \<and> MainConfig example_main = Inr example_derived
   \<and> set_fields example_main = Inr example_derived
   \<and> (\<exists>ef. default_eval_frequency (eval_frequency example_main)
               (size_cfg (task_config example_main)) = Inr ef
           \<and> eval_frequency example_derived = Given (Some ef) \<and> ef \<noteq> 0)"
proof -
  let ?v = "example_main\<lparr>task_config := example_task\<lparr>size_cfg := 0\<rparr>\<rparr>"
  let ?i = "\<lparr>inst_size = 0, inst_length = 3, variant = ParityAutomatonConfig\<rparr>"
  have 1: "default_eval_frequency (eval_frequency ?v) (size_cfg (task_config ?v)) = Inr 0"
    by (simp add: eval_defs)
  have 2: "resolve_task (task_config ?v) = Inr ?i"
    by (simp add: eval_defs)
  have 3: "MainConfig example_main = Inr example_derived"
    by (simp add: eval_defs)
  note T = zero_eval_frequency_rejected [of ?v ?i example_derived]
  from T 1 have a: "isl (set_fields ?v) \<and> isl (MainConfig ?v)" by blast
  from T 1 2 have b: "set_fields ?v = Inl ZeroDivisionError \<and> MainConfig ?v = Inl ZeroDivisionError"
    by blast
  note U = zero_eval_frequency_rejected [of example_main ?i example_derived]
  from U 3 have c: "set_fields example_main = Inr example_derived" by blast
  with U have d: "\<exists>ef. default_eval_frequency (eval_frequency example_main)
               (size_cfg (task_config example_main)) = Inr ef
           \<and> eval_frequency example_derived = Given (Some ef) \<and> ef \<noteq> 0" by blast
  from 1 2 a b 3 c d show ?thesis by blast
qed

text \<open>
  Claim C6 as stated fails: with the raw \<open>eval_frequency = - 5\<close> the construction of
  the example succeeds, and the derived configuration has \<open>eval_frequency = - 5\<close> (and
  \<open>- 2000\<close> epochs).
\<close>

theorem negative_eval_frequency_counterexample:
  "MainConfig (example_main\<lparr>eval_frequency := Given (Some (- 5))\<rparr>)
     = Inr (example_derived\<lparr>eval_frequency := Given (Some (- 5)), num_epochs := Some (- 2000)\<rparr>)"
  by (simp add: eval_defs)

section \<open>Callback assembly\<close>

text \<open>
  Claim C8.  For every RLCT configuration the assembled list starts with the primary
  estimator, the online one when the online flag is set and the batch one otherwise,
  followed, when diagnostics are on, by exactly four handles in the order
  \<open>OnlineWBICEstimator\<close>, \<open>WeightNorm\<close>, \<open>NoiseNorm\<close>, \<open>GradientNorm\<close>, and by nothing
  otherwise; the names are the class names in the same order.  With the
  compatibility check of the specification the assembly always returns; and whatever
  the check is, a list it lets through has this shape.
\<close>

theorem create_callbacks_order:
  "create_callbacks r device =
     Inr ((if online r
           then OnlineLLCEstimator (num_chains r) (num_draws r) (num_samples r) device
           else LLCEstimator (num_chains r) (num_draws r) (num_samples r) device)
          # (if use_diagnostics r
             then [OnlineWBICEstimator (num_chains r) (num_draws r) (num_samples r) device,
                   WeightNorm (num_chains r) (num_draws r) device 2,
                   NoiseNorm (num_chains r) (num_draws r) device 2,
                   GradientNorm (num_chains r) (num_draws r) device 2]
             else []),
          (if online r then ''OnlineLLCEstimator'' else ''LLCEstimator'')
          # (if use_diagnostics r
             then [''OnlineWBICEstimator'', ''WeightNorm'', ''NoiseNorm'', ''GradientNorm'']
             else []))
   \<and> (create_callbacks_with validate r device = Inr (callbacks, names) \<longrightarrow>
        hd callbacks =
          (if online r
           then OnlineLLCEstimator (num_chains r) (num_draws r) (num_samples r) device
           else LLCEstimator (num_chains r) (num_draws r) (num_samples r) device)
        \<and> tl callbacks =
          (if use_diagnostics r
           then [OnlineWBICEstimator (num_chains r) (num_draws r) (num_samples r) device,
                 WeightNorm (num_chains r) (num_draws r) device 2,
                 NoiseNorm (num_chains r) (num_draws r) device 2,
                 GradientNorm (num_chains r) (num_draws r) device 2]
           else [])
        \<and> length callbacks = (if use_diagnostics r then 5 else 1)
        \<and> names = map callback_name callbacks)"
  by (auto simp: create_callbacks_def create_callbacks_with_def validate_callbacks_def
      Let_def and_then_eq_Inr)

text \<open>The example configuration: batch estimator first, then the four diagnostics.\<close>

theorem create_callbacks_order_witness:
  "create_callbacks_with validate_callbacks example_rlct ''cpu'' =
     Inr ([LLCEstimator 10 100 None ''cpu'', OnlineWBICEstimator 10 100 None ''cpu'',
           WeightNorm 10 100 ''cpu'' 2, NoiseNorm 10 100 ''cpu'' 2,
           GradientNorm 10 100 ''cpu'' 2],
          [''LLCEstimator'', ''OnlineWBICEstimator'', ''WeightNorm'', ''NoiseNorm'',
           ''GradientNorm''])
   \<and> hd [LLCEstimator 10 100 None ''cpu'', OnlineWBICEstimator 10 100 None ''cpu'',
           WeightNorm 10 100 ''cpu'' 2, NoiseNorm 10 100 ''cpu'' 2,
           GradientNorm 10 100 ''cpu'' 2] = LLCEstimator 10 100 None ''cpu''
   \<and> online example_rlct = False \<and> use_diagnostics example_rlct = True"
proof -
  have 1: "create_callbacks_with validate_callbacks example_rlct ''cpu'' =
     Inr ([LLCEstimator 10 100 None ''cpu'', OnlineWBICEstimator 10 100 None ''cpu'',
           WeightNorm 10 100 ''cpu'' 2, NoiseNorm 10 100 ''cpu'' 2,
           GradientNorm 10 100 ''cpu'' 2],
          [''LLCEstimator'', ''OnlineWBICEstimator'', ''WeightNorm'', ''NoiseNorm'',
           ''GradientNorm''])"
    by (simp add: create_callbacks_with_def validate_callbacks_def example_rlct_def)
  from create_callbacks_order [of example_rlct "''cpu''" validate_callbacks
      "[LLCEstimator 10 100 None ''cpu'', OnlineWBICEstimator 10 100 None ''cpu'',
           WeightNorm 10 100 ''cpu'' 2, NoiseNorm 10 100 ''cpu'' 2,
           GradientNorm 10 100 ''cpu'' 2]"
      "[''LLCEstimator'', ''OnlineWBICEstimator'', ''WeightNorm'', ''NoiseNorm'',
           ''GradientNorm'']"] 1
  show ?thesis by (simp add: example_rlct_def)
qed

end
